theory Spec2Isabelle
  imports Main "HOL-Library.Word"
begin

unbundle bit_operations_syntax

section \<open>Bytes, sizes and buffers\<close>

type_synonym sb_byte_t = "8 word"

text \<open>
  Modelled from the spec: the header that declares the two sizes is not among the
  sources. The spec fixes the block size B at 64 bytes and the digest size D at 32 bytes.
\<close>

abbreviation SB_SHA256_BLOCK_SIZE :: nat where
  "SB_SHA256_BLOCK_SIZE \<equiv> 64"

abbreviation SB_SHA256_SIZE :: nat where
  "SB_SHA256_SIZE \<equiv> 32"

text \<open>
  A buffer is the list of its bytes. \<open>store_bytes buf off src\<close> is the buffer after
  the bytes \<open>src\<close> have been written at offset \<open>off\<close> (what \<open>memcpy\<close>, \<open>memset\<close> and a
  digest written through a pointer do, for a write that stays inside the buffer);
  \<open>load_bytes buf off n\<close> is the \<open>n\<close> bytes read at offset \<open>off\<close>.
\<close>

definition store_bytes :: "sb_byte_t list \<Rightarrow> nat \<Rightarrow> sb_byte_t list \<Rightarrow> sb_byte_t list" where
  "store_bytes buf off src = take off buf @ src @ drop (off + length src) buf"

definition load_bytes :: "sb_byte_t list \<Rightarrow> nat \<Rightarrow> nat \<Rightarrow> sb_byte_t list" where
  "load_bytes buf off n = take n (drop off buf)"

section \<open>The hash engine\<close>

text \<open>
  The SHA-256 implementation (\<open>sb_sha256_init\<close>, \<open>sb_sha256_update\<close>,
  \<open>sb_sha256_finish\<close> and the type of its state) is not among the sources, so the
  HMAC functions take it as a parameter: an engine over a state type \<open>'s\<close>.
  \<^item> \<open>sb_sha256_zeroed\<close> is the engine state all of whose bytes are zero (what
    \<open>memset\<close> over the HMAC object leaves in the embedded engine);
  \<^item> \<open>sb_sha256_init\<close> is the state that initialisation leaves, whatever was there;
  \<^item> \<open>sb_sha256_update\<close> absorbs a byte sequence;
  \<^item> \<open>sb_sha256_finish\<close> returns the state it leaves and the digest it writes.
\<close>

record 's sb_sha256_engine =
  sb_sha256_zeroed :: 's
  sb_sha256_init :: 's
  sb_sha256_update :: "'s \<Rightarrow> sb_byte_t list \<Rightarrow> 's"
  sb_sha256_finish :: "'s \<Rightarrow> 's \<times> sb_byte_t list"

text \<open>The engine contract of the spec: a digest has D bytes, and update is chunk-independent.\<close>

definition digest_size_ok :: "'s sb_sha256_engine \<Rightarrow> bool" where
  "digest_size_ok E \<longleftrightarrow> (\<forall>s. length (snd (sb_sha256_finish E s)) = SB_SHA256_SIZE)"

definition chunk_independent :: "'s sb_sha256_engine \<Rightarrow> bool" where
  "chunk_independent E \<longleftrightarrow>
     (\<forall>s a b. sb_sha256_update E (sb_sha256_update E s a) b = sb_sha256_update E s (a @ b))"

section \<open>The HMAC state and its operations\<close>

text \<open>
  Modelled from the spec: the declaration of \<open>sb_hmac_sha256_state_t\<close> is not among the
  sources. The spec gives it two fields, the embedded engine state and a key buffer of
  B bytes.
\<close>

record 's sb_hmac_sha256_state_t =
  sha :: 's
  key :: "sb_byte_t list"

definition ipad :: sb_byte_t where
  "ipad = 0x36"

definition opad :: sb_byte_t where
  "opad = 0x5C"

text \<open>The loop of \<open>sb_hmac_sha256_key_pad\<close>, from index \<open>i\<close> on.\<close>

function key_pad_loop :: "nat \<Rightarrow> sb_byte_t \<Rightarrow> sb_byte_t list \<Rightarrow> sb_byte_t list" where
  "key_pad_loop i pad k =
     (if i < SB_SHA256_BLOCK_SIZE then key_pad_loop (i + 1) pad (k[i := k ! i XOR pad]) else k)"
  by pat_completeness auto
termination
  by (relation "measure (\<lambda>(i, pad, k). SB_SHA256_BLOCK_SIZE - i)") auto

definition sb_hmac_sha256_key_pad ::
  "'s sb_hmac_sha256_state_t \<Rightarrow> sb_byte_t \<Rightarrow> 's sb_hmac_sha256_state_t" where
  "sb_hmac_sha256_key_pad hmac pad = hmac\<lparr>key := key_pad_loop 0 pad (key hmac)\<rparr>"

definition sb_hmac_sha256_reinit ::
  "'s sb_sha256_engine \<Rightarrow> 's sb_hmac_sha256_state_t \<Rightarrow> 's sb_hmac_sha256_state_t" where
  "sb_hmac_sha256_reinit E hmac =
     (let hmac = sb_hmac_sha256_key_pad hmac ipad;
          hmac = hmac\<lparr>sha := sb_sha256_init E\<rparr>;
          hmac = hmac\<lparr>sha := sb_sha256_update E (sha hmac)
                                 (load_bytes (key hmac) 0 SB_SHA256_BLOCK_SIZE)\<rparr>
      in sb_hmac_sha256_key_pad hmac ipad)"

text \<open>
  The key is the byte sequence \<open>k\<close>; \<open>keylen\<close> is its length. The \<open>memset\<close> over the
  whole object zeroes the key buffer and the embedded engine state.
\<close>

definition sb_hmac_sha256_init ::
  "'s sb_sha256_engine \<Rightarrow> 's sb_hmac_sha256_state_t \<Rightarrow> sb_byte_t list \<Rightarrow>
   's sb_hmac_sha256_state_t" where
  "sb_hmac_sha256_init E hmac k =
     (let hmac = hmac\<lparr>sha := sb_sha256_zeroed E, key := replicate SB_SHA256_BLOCK_SIZE 0\<rparr>;
          hmac =
            (if length k > SB_SHA256_BLOCK_SIZE then
               let hmac = hmac\<lparr>sha := sb_sha256_init E\<rparr>;
                   hmac = hmac\<lparr>sha := sb_sha256_update E (sha hmac) k\<rparr>;
                   (s, d) = sb_sha256_finish E (sha hmac)
               in hmac\<lparr>sha := s, key := store_bytes (key hmac) 0 d\<rparr>
             else hmac\<lparr>key := store_bytes (key hmac) 0 k\<rparr>)
      in sb_hmac_sha256_reinit E hmac)"

definition sb_hmac_sha256_update ::
  "'s sb_sha256_engine \<Rightarrow> 's sb_hmac_sha256_state_t \<Rightarrow> sb_byte_t list \<Rightarrow>
   's sb_hmac_sha256_state_t" where
  "sb_hmac_sha256_update E hmac input = hmac\<lparr>sha := sb_sha256_update E (sha hmac) input\<rparr>"

text \<open>
  \<open>finish\<close> takes the caller's output buffer, since it reads it back between its two
  passes, and returns it with the object.
\<close>

definition sb_hmac_sha256_finish ::
  "'s sb_sha256_engine \<Rightarrow> 's sb_hmac_sha256_state_t \<Rightarrow> sb_byte_t list \<Rightarrow>
   's sb_hmac_sha256_state_t \<times> sb_byte_t list" where
  "sb_hmac_sha256_finish E hmac output =
     (let (s, d) = sb_sha256_finish E (sha hmac);
          hmac = hmac\<lparr>sha := s\<rparr>;
          output = store_bytes output 0 d;
          hmac = sb_hmac_sha256_key_pad hmac opad;
          hmac = hmac\<lparr>sha := sb_sha256_init E\<rparr>;
          hmac = hmac\<lparr>sha := sb_sha256_update E (sha hmac)
                                 (load_bytes (key hmac) 0 SB_SHA256_BLOCK_SIZE)\<rparr>;
          hmac = hmac\<lparr>sha := sb_sha256_update E (sha hmac)
                                 (load_bytes output 0 SB_SHA256_SIZE)\<rparr>;
          (s, d) = sb_sha256_finish E (sha hmac);
          hmac = hmac\<lparr>sha := s\<rparr>;
          output = store_bytes output 0 d;
          hmac = sb_hmac_sha256_key_pad hmac opad
      in (hmac, output))"

definition sb_hmac_sha256_finish_to_key ::
  "'s sb_sha256_engine \<Rightarrow> 's sb_hmac_sha256_state_t \<Rightarrow> 's sb_hmac_sha256_state_t" where
  "sb_hmac_sha256_finish_to_key E hmac =
     (let hmac = sb_hmac_sha256_key_pad hmac opad;
          (s, d) = sb_sha256_finish E (sha hmac);
          hmac = hmac\<lparr>sha := s, key := store_bytes (key hmac) SB_SHA256_SIZE d\<rparr>;
          hmac = hmac\<lparr>sha := sb_sha256_init E\<rparr>;
          hmac = hmac\<lparr>sha := sb_sha256_update E (sha hmac)
                                 (load_bytes (key hmac) 0 SB_SHA256_SIZE)\<rparr>;
          hmac = hmac\<lparr>key := store_bytes (key hmac) 0 (replicate SB_SHA256_SIZE opad)\<rparr>;
          hmac = hmac\<lparr>sha := sb_sha256_update E (sha hmac)
                                 (load_bytes (key hmac) 0 SB_SHA256_SIZE)\<rparr>;
          hmac = hmac\<lparr>sha := sb_sha256_update E (sha hmac)
                                 (load_bytes (key hmac) SB_SHA256_SIZE SB_SHA256_SIZE)\<rparr>;
          (s, d) = sb_sha256_finish E (sha hmac);
          hmac = hmac\<lparr>sha := s, key := store_bytes (key hmac) 0 d\<rparr>;
          hmac = hmac\<lparr>key := store_bytes (key hmac) SB_SHA256_SIZE
                                 (replicate SB_SHA256_SIZE 0)\<rparr>
      in sb_hmac_sha256_reinit E hmac)"

definition sb_hmac_sha256 ::
  "'s sb_sha256_engine \<Rightarrow> 's sb_hmac_sha256_state_t \<Rightarrow> sb_byte_t list \<Rightarrow>
   sb_byte_t list \<Rightarrow> sb_byte_t list \<Rightarrow> 's sb_hmac_sha256_state_t \<times> sb_byte_t list" where
  "sb_hmac_sha256 E hmac k input output =
     (let hmac = sb_hmac_sha256_init E hmac k;
          hmac = sb_hmac_sha256_update E hmac input
      in sb_hmac_sha256_finish E hmac output)"

section \<open>SHA-256 and the engine of the spec\<close>

text \<open>
  Modelled from the spec: the hash primitive is not among the sources. The spec names it
  SHA-256 (block size 64, digest size 32) and the tests are the HMAC-SHA-256 vectors of
  RFC 4231, so the model is the SHA-256 of FIPS 180-4. A 32-bit word is an \<open>int\<close> in
  \<open>[0, 2^32)\<close>, with the wrap-around written out: \<open>take_bit 32\<close> is reduction
  modulo \<open>2^32\<close>.
\<close>

definition add32 :: "int \<Rightarrow> int \<Rightarrow> int" where
  "add32 a b = take_bit 32 (a + b)"

definition rotr :: "nat \<Rightarrow> int \<Rightarrow> int" where
  "rotr n x = drop_bit n x OR take_bit 32 (push_bit (32 - n) x)"

definition Ch :: "int \<Rightarrow> int \<Rightarrow> int \<Rightarrow> int" where
  "Ch x y z = (x AND y) XOR (take_bit 32 (NOT x) AND z)"

definition Maj :: "int \<Rightarrow> int \<Rightarrow> int \<Rightarrow> int" where
  "Maj x y z = (x AND y) XOR (x AND z) XOR (y AND z)"

definition bsig0 :: "int \<Rightarrow> int" where
  "bsig0 x = rotr 2 x XOR rotr 13 x XOR rotr 22 x"

definition bsig1 :: "int \<Rightarrow> int" where
  "bsig1 x = rotr 6 x XOR rotr 11 x XOR rotr 25 x"

definition ssig0 :: "int \<Rightarrow> int" where
  "ssig0 x = rotr 7 x XOR rotr 18 x XOR drop_bit 3 x"

definition ssig1 :: "int \<Rightarrow> int" where
  "ssig1 x = rotr 17 x XOR rotr 19 x XOR drop_bit 10 x"

definition K256 :: "int list" where
  "K256 = [
   0x428A2F98, 0x71374491, 0xB5C0FBCF, 0xE9B5DBA5, 0x3956C25B, 0x59F111F1, 0x923F82A4, 0xAB1C5ED5,
   0xD807AA98, 0x12835B01, 0x243185BE, 0x550C7DC3, 0x72BE5D74, 0x80DEB1FE, 0x9BDC06A7, 0xC19BF174,
   0xE49B69C1, 0xEFBE4786, 0x0FC19DC6, 0x240CA1CC, 0x2DE92C6F, 0x4A7484AA, 0x5CB0A9DC, 0x76F988DA,
   0x983E5152, 0xA831C66D, 0xB00327C8, 0xBF597FC7, 0xC6E00BF3, 0xD5A79147, 0x06CA6351, 0x14292967,
   0x27B70A85, 0x2E1B2138, 0x4D2C6DFC, 0x53380D13, 0x650A7354, 0x766A0ABB, 0x81C2C92E, 0x92722C85,
   0xA2BFE8A1, 0xA81A664B, 0xC24B8B70, 0xC76C51A3, 0xD192E819, 0xD6990624, 0xF40E3585, 0x106AA070,
   0x19A4C116, 0x1E376C08, 0x2748774C, 0x34B0BCB5, 0x391C0CB3, 0x4ED8AA4A, 0x5B9CCA4F, 0x682E6FF3,
   0x748F82EE, 0x78A5636F, 0x84C87814, 0x8CC70208, 0x90BEFFFA, 0xA4506CEB, 0xBEF9A3F7, 0xC67178F2]"

datatype hash8 = Hash8 int int int int int int int int

definition H256_init :: hash8 where
  "H256_init = Hash8 0x6a09e667 0xbb67ae85 0x3c6ef372 0xa54ff53a
                     0x510e527f 0x9b05688c 0x1f83d9ab 0x5be0cd19"

text \<open>One round, on the working variables \<open>a\<close> to \<open>h\<close>, with its constant and schedule word.\<close>

fun round256 :: "hash8 \<Rightarrow> int \<times> int \<Rightarrow> hash8" where
  "round256 (Hash8 a b c d e f g h) (k, w) =
     (let t1 = add32 (add32 (add32 h (bsig1 e)) (add32 (Ch e f g) k)) w;
          t2 = add32 (bsig0 a) (Maj a b c)
      in Hash8 (add32 t1 t2) a b c (add32 d t1) e f g)"

fun add_hash :: "hash8 \<Rightarrow> hash8 \<Rightarrow> hash8" where
  "add_hash (Hash8 a b c d e f g h) (Hash8 a' b' c' d' e' f' g' h') =
     Hash8 (add32 a a') (add32 b b') (add32 c c') (add32 d d')
           (add32 e e') (add32 f f') (add32 g g') (add32 h h')"

text \<open>
  The message schedule: \<open>w\<close> holds the words so far, newest first, so that
  \<open>W\<^sub>t\<^sub>-\<^sub>2\<close>, \<open>W\<^sub>t\<^sub>-\<^sub>7\<close>, \<open>W\<^sub>t\<^sub>-\<^sub>1\<^sub>5\<close> and \<open>W\<^sub>t\<^sub>-\<^sub>1\<^sub>6\<close> are at indices 1, 6, 14 and 15.
\<close>

fun schedule :: "nat \<Rightarrow> int list \<Rightarrow> int list" where
  "schedule 0 w = rev w"
| "schedule (Suc n) w =
     schedule n (add32 (add32 (ssig1 (w ! 1)) (w ! 6)) (add32 (ssig0 (w ! 14)) (w ! 15)) # w)"

definition compress_words :: "hash8 \<Rightarrow> int list \<Rightarrow> hash8" where
  "compress_words hs ws = add_hash hs (foldl round256 hs (zip K256 (schedule 48 (rev ws))))"

text \<open>The big-endian words of a block, and the big-endian bytes of a word.\<close>

fun words_of :: "sb_byte_t list \<Rightarrow> int list" where
  "words_of (a # b # c # d # bs) =
     (uint a * 16777216 + uint b * 65536 + uint c * 256 + uint d) # words_of bs"
| "words_of _ = []"

definition word_bytes :: "int \<Rightarrow> sb_byte_t list" where
  "word_bytes x = [word_of_int (x div 16777216 mod 256), word_of_int (x div 65536 mod 256),
                   word_of_int (x div 256 mod 256), word_of_int (x mod 256)]"

definition compress :: "hash8 \<Rightarrow> sb_byte_t list \<Rightarrow> hash8" where
  "compress hs blk = compress_words hs (words_of blk)"

text \<open>
  Padding: the byte 0x80, zero bytes up to 56 modulo 64, and the length of the message in
  bits as eight big-endian bytes.
\<close>

definition pad256 :: "sb_byte_t list \<Rightarrow> sb_byte_t list" where
  "pad256 m = m @ [0x80] @ replicate ((119 - length m mod 64) mod 64) 0
              @ word_bytes (int (8 * length m) div 4294967296)
              @ word_bytes (int (8 * length m) mod 4294967296)"

function chunks64 :: "sb_byte_t list \<Rightarrow> sb_byte_t list list" where
  "chunks64 bs = (if length bs < 64 then [] else take 64 bs # chunks64 (drop 64 bs))"
  by pat_completeness auto
termination
  by (relation "measure length") auto

fun hash_bytes :: "hash8 \<Rightarrow> sb_byte_t list" where
  "hash_bytes (Hash8 a b c d e f g h) =
     word_bytes a @ word_bytes b @ word_bytes c @ word_bytes d
     @ word_bytes e @ word_bytes f @ word_bytes g @ word_bytes h"

text \<open>
  Modelled from the spec: the digest of a whole message, which the absent engine returns
  at finish. Pad, cut into blocks of 64 bytes, compress from the initial hash value.
\<close>

definition sha256 :: "sb_byte_t list \<Rightarrow> sb_byte_t list" where
  "sha256 m = hash_bytes (foldl compress H256_init (chunks64 (pad256 m)))"

text \<open>
  Modelled from the spec: the engine's three operations are not among the sources. The
  spec's contract: init resets to the empty-input state, update appends bytes to the
  pending input, finish returns the digest of the pending input, after which the engine
  must be initialised again before further use. The spec gives update and finish no
  meaning on an engine that is not accepting input (zeroed memory, or finished); the
  model leaves such a state as it is and lets finish return 32 zero bytes.
\<close>

datatype sb_sha256_state_t = Sha_zeroed | Sha_pending "sb_byte_t list" | Sha_finished

fun sha256_update :: "sb_sha256_state_t \<Rightarrow> sb_byte_t list \<Rightarrow> sb_sha256_state_t" where
  "sha256_update (Sha_pending p) bs = Sha_pending (p @ bs)"
| "sha256_update s bs = s"

fun sha256_finish :: "sb_sha256_state_t \<Rightarrow> sb_sha256_state_t \<times> sb_byte_t list" where
  "sha256_finish (Sha_pending p) = (Sha_finished, sha256 p)"
| "sha256_finish s = (s, replicate SB_SHA256_SIZE 0)"

text \<open>
  Modelled from the spec: the absent engine, as the four components the HMAC functions
  take.
\<close>

definition sha256_engine :: "sb_sha256_state_t sb_sha256_engine" where
  "sha256_engine =
     \<lparr>sb_sha256_zeroed = Sha_zeroed, sb_sha256_init = Sha_pending [],
      sb_sha256_update = sha256_update, sb_sha256_finish = sha256_finish\<rparr>"

text \<open>The digest an engine gives for a whole input: init, one update, finish.\<close>

definition engine_hash :: "'s sb_sha256_engine \<Rightarrow> sb_byte_t list \<Rightarrow> sb_byte_t list" where
  "engine_hash E m = snd (sb_sha256_finish E (sb_sha256_update E (sb_sha256_init E) m))"

text \<open>The first two RFC 4231 test vectors of \<open>sb_test_hmac_sha256\<close>.\<close>

definition TEST_K1 :: "sb_byte_t list" where
  "TEST_K1 =
    [0x0b, 0x0b, 0x0b, 0x0b, 0x0b, 0x0b, 0x0b, 0x0b, 0x0b, 0x0b, 0x0b, 0x0b,
     0x0b, 0x0b, 0x0b, 0x0b, 0x0b, 0x0b, 0x0b, 0x0b]"

definition TEST_M1 :: "sb_byte_t list" where
  "TEST_M1 =
    [0x48, 0x69, 0x20, 0x54, 0x68, 0x65, 0x72, 0x65]"

definition TEST_H1 :: "sb_byte_t list" where
  "TEST_H1 =
    [0xb0, 0x34, 0x4c, 0x61, 0xd8, 0xdb, 0x38, 0x53, 0x5c, 0xa8, 0xaf, 0xce,
     0xaf, 0x0b, 0xf1, 0x2b, 0x88, 0x1d, 0xc2, 0x00, 0xc9, 0x83, 0x3d, 0xa7,
     0x26, 0xe9, 0x37, 0x6c, 0x2e, 0x32, 0xcf, 0xf7]"

definition TEST_K2 :: "sb_byte_t list" where
  "TEST_K2 =
    [0x4a, 0x65, 0x66, 0x65]"

definition TEST_M2 :: "sb_byte_t list" where
  "TEST_M2 =
    [0x77, 0x68, 0x61, 0x74, 0x20, 0x64, 0x6f, 0x20, 0x79, 0x61, 0x20, 0x77,
     0x61, 0x6e, 0x74, 0x20, 0x66, 0x6f, 0x72, 0x20, 0x6e, 0x6f, 0x74, 0x68,
     0x69, 0x6e, 0x67, 0x3f]"

definition TEST_H2 :: "sb_byte_t list" where
  "TEST_H2 =
    [0x5b, 0xdc, 0xc1, 0x46, 0xbf, 0x60, 0x75, 0x4e, 0x6a, 0x04, 0x24, 0x26,
     0x08, 0x95, 0x75, 0xc7, 0x5a, 0x00, 0x3f, 0x08, 0x9d, 0x27, 0x39, 0x83,
     0x9d, 0xec, 0x58, 0xb9, 0x64, 0xec, 0x38, 0x43]"

section \<open>The pad toggle\<close>

declare key_pad_loop.simps [simp del]

lemma key_pad_loop_length: "length (key_pad_loop i pad k) = length k"
proof (induction i pad k rule: key_pad_loop.induct)
  case (1 i pad k)
  then show ?case
    by (subst key_pad_loop.simps) simp
qed

lemma key_pad_loop_nth:
  "j < length k \<Longrightarrow>
   key_pad_loop i pad k ! j =
     (if i \<le> j \<and> j < SB_SHA256_BLOCK_SIZE then k ! j XOR pad else k ! j)"
proof (induction i pad k rule: key_pad_loop.induct)
  case (1 i pad k)
  show ?case
  proof (cases "i < SB_SHA256_BLOCK_SIZE")
    case True
    have "key_pad_loop i pad k ! j = key_pad_loop (i + 1) pad (k[i := k ! i XOR pad]) ! j"
      using True by (subst key_pad_loop.simps) simp
    also have "\<dots> = (if i + 1 \<le> j \<and> j < SB_SHA256_BLOCK_SIZE
                      then k[i := k ! i XOR pad] ! j XOR pad else k[i := k ! i XOR pad] ! j)"
      using "1.IH" [OF True] "1.prems" by simp
    also have "\<dots> = (if i \<le> j \<and> j < SB_SHA256_BLOCK_SIZE then k ! j XOR pad else k ! j)"
      using True "1.prems" by (cases "i = j") auto
    finally show ?thesis .
  next
    case False
    then show ?thesis
      by (subst key_pad_loop.simps) auto
  qed
qed

lemma key_pad_loop_map:
  "key_pad_loop 0 pad k =
     map (\<lambda>b. b XOR pad) (take SB_SHA256_BLOCK_SIZE k) @ drop SB_SHA256_BLOCK_SIZE k"
  by (rule nth_equalityI)
     (auto simp: key_pad_loop_length key_pad_loop_nth nth_append min_def)

lemma key_pad_loop_twice: "key_pad_loop 0 pad (key_pad_loop 0 pad k) = k"
  by (rule nth_equalityI)
     (auto simp: key_pad_loop_length key_pad_loop_nth xor.assoc)

lemma key_pad_key [simp]:
  "key (sb_hmac_sha256_key_pad hmac pad) = key_pad_loop 0 pad (key hmac)"
  by (simp add: sb_hmac_sha256_key_pad_def)

lemma key_pad_sha [simp]: "sha (sb_hmac_sha256_key_pad hmac pad) = sha hmac"
  by (simp add: sb_hmac_sha256_key_pad_def)

text \<open>
  C7: the pad toggle applied twice with the same constant gives back the object it
  started from, for every content of the key buffer and every pad byte; the inner pad
  is 0x36, the outer pad is 0x5C, and the two differ.
\<close>

theorem key_pad_involution:
  "sb_hmac_sha256_key_pad (sb_hmac_sha256_key_pad hmac pad) pad = hmac
   \<and> key (sb_hmac_sha256_key_pad (sb_hmac_sha256_key_pad hmac pad) pad) = key hmac
   \<and> ipad = 0x36 \<and> opad = 0x5C \<and> ipad \<noteq> opad"
  by (simp add: sb_hmac_sha256_key_pad_def key_pad_loop_twice ipad_def opad_def)

section \<open>Buffers, and the operations in closed form\<close>

lemma store_bytes_all: "length src = length buf \<Longrightarrow> store_bytes buf 0 src = src"
  by (simp add: store_bytes_def)

lemma load_bytes_all: "length buf = n \<Longrightarrow> load_bytes buf 0 n = buf"
  by (simp add: load_bytes_def)

lemma store_zero_extend:
  "length k \<le> SB_SHA256_BLOCK_SIZE \<Longrightarrow>
   store_bytes (replicate SB_SHA256_BLOCK_SIZE 0) 0 k = k @ replicate (SB_SHA256_BLOCK_SIZE - length k) 0"
  by (simp add: store_bytes_def)

lemma reinit_eq:
  "sb_hmac_sha256_reinit E hmac =
     hmac\<lparr>sha := sb_sha256_update E (sb_sha256_init E)
                     (load_bytes (key_pad_loop 0 ipad (key hmac)) 0 SB_SHA256_BLOCK_SIZE)\<rparr>"
  by (simp add: sb_hmac_sha256_reinit_def sb_hmac_sha256_key_pad_def key_pad_loop_twice)

lemma reinit_key: "key (sb_hmac_sha256_reinit E hmac) = key hmac"
  by (simp add: reinit_eq)

lemma finish_eq:
  "sb_hmac_sha256_finish E hmac output =
     (let output1 = store_bytes output 0 (snd (sb_sha256_finish E (sha hmac)));
          r = sb_sha256_finish E
                (sb_sha256_update E
                   (sb_sha256_update E (sb_sha256_init E)
                      (load_bytes (key_pad_loop 0 opad (key hmac)) 0 SB_SHA256_BLOCK_SIZE))
                   (load_bytes output1 0 SB_SHA256_SIZE))
      in (hmac\<lparr>sha := fst r\<rparr>, store_bytes output1 0 (snd r)))"
  by (simp add: sb_hmac_sha256_finish_def sb_hmac_sha256_key_pad_def key_pad_loop_twice
      Let_def split: prod.split)

lemma finish_key: "key (fst (sb_hmac_sha256_finish E hmac output)) = key hmac"
  by (simp add: finish_eq Let_def)

lemma init_eq:
  "sb_hmac_sha256_init E hmac k =
     sb_hmac_sha256_reinit E
       \<lparr>sha = sb_sha256_zeroed E,
        key = store_bytes (replicate SB_SHA256_BLOCK_SIZE 0) 0
                (if length k > SB_SHA256_BLOCK_SIZE then engine_hash E k else k)\<rparr>"
  by (cases hmac) (simp add: sb_hmac_sha256_init_def reinit_eq engine_hash_def Let_def split: prod.split)

lemma init_key:
  "key (sb_hmac_sha256_init E hmac k) =
     store_bytes (replicate SB_SHA256_BLOCK_SIZE 0) 0
       (if length k > SB_SHA256_BLOCK_SIZE then engine_hash E k else k)"
  by (simp add: init_eq reinit_key)

lemma engine_hash_length: "digest_size_ok E \<Longrightarrow> length (engine_hash E m) = SB_SHA256_SIZE"
  by (simp add: digest_size_ok_def engine_hash_def)

section \<open>The engine of the spec meets the contract\<close>

lemma word_bytes_length [simp]: "length (word_bytes x) = 4"
  by (simp add: word_bytes_def)

lemma hash_bytes_length: "length (hash_bytes hs) = SB_SHA256_SIZE"
  by (cases hs) simp

lemma sha256_length: "length (sha256 m) = SB_SHA256_SIZE"
  by (simp add: sha256_def hash_bytes_length)

lemma sha256_engine_digest_size: "digest_size_ok sha256_engine"
  unfolding digest_size_ok_def
proof
  fix s
  show "length (snd (sb_sha256_finish sha256_engine s)) = SB_SHA256_SIZE"
    by (cases s) (simp_all add: sha256_engine_def sha256_length)
qed

lemma sha256_engine_chunk_independent: "chunk_independent sha256_engine"
  unfolding chunk_independent_def
proof (intro allI)
  fix s a b
  show "sb_sha256_update sha256_engine (sb_sha256_update sha256_engine s a) b =
        sb_sha256_update sha256_engine s (a @ b)"
    by (cases s) (simp_all add: sha256_engine_def)
qed

lemma sha256_engine_hash: "engine_hash sha256_engine m = sha256 m"
  by (simp add: engine_hash_def sha256_engine_def)

section \<open>Frame and determinism properties\<close>

text \<open>
  C8: init zeroes the whole object before it derives the key buffer, so the state it
  leaves is the same whatever the object held before: it depends on the key bytes (and
  so on their number) alone.
\<close>

theorem init_independent_of_prior_state:
  "sb_hmac_sha256_init E hmac1 k = sb_hmac_sha256_init E hmac2 k"
proof -
  have "hmac1\<lparr>sha := sb_sha256_zeroed E, key := replicate SB_SHA256_BLOCK_SIZE 0\<rparr>
      = hmac2\<lparr>sha := sb_sha256_zeroed E, key := replicate SB_SHA256_BLOCK_SIZE 0\<rparr>"
    by (cases hmac1, cases hmac2) simp
  then show ?thesis
    unfolding sb_hmac_sha256_init_def by (simp only:)
qed

text \<open>
  C9: update leaves the key buffer byte for byte as it was, for every object and every
  input chunk; only the embedded engine state changes.
\<close>

theorem update_preserves_key:
  "key (sb_hmac_sha256_update E hmac input) = key hmac
   \<and> sb_hmac_sha256_update E hmac input = hmac\<lparr>sha := sha (sb_hmac_sha256_update E hmac input)\<rparr>"
  by (simp add: sb_hmac_sha256_update_def)

text \<open>
  C10: finish writes the inner digest into the caller's output buffer, reads it back for
  the outer pass and overwrites it with the MAC. With an engine whose digests have 32
  bytes, two runs from the same object with differently filled 32-byte output buffers
  return the same object and the same 32 bytes.
\<close>

theorem finish_output_independent:
  assumes "digest_size_ok E" and "length out1 = SB_SHA256_SIZE" and "length out2 = SB_SHA256_SIZE"
  shows "sb_hmac_sha256_finish E hmac out1 = sb_hmac_sha256_finish E hmac out2
         \<and> length (snd (sb_hmac_sha256_finish E hmac out1)) = SB_SHA256_SIZE"
proof -
  have d: "length (snd (sb_sha256_finish E s)) = SB_SHA256_SIZE" for s
    using assms(1) by (simp add: digest_size_ok_def)
  have "store_bytes out 0 (snd (sb_sha256_finish E s)) = snd (sb_sha256_finish E s)"
    if "length out = SB_SHA256_SIZE" for out s
    using that d by (simp add: store_bytes_all)
  then show ?thesis
    using assms(2,3) d by (simp add: finish_eq Let_def)
qed

theorem finish_output_independent_witness:
  "digest_size_ok sha256_engine
   \<and> length (replicate SB_SHA256_SIZE (0 :: sb_byte_t)) = SB_SHA256_SIZE
   \<and> length (replicate SB_SHA256_SIZE (255 :: sb_byte_t)) = SB_SHA256_SIZE
   \<and> sb_hmac_sha256_finish sha256_engine
        (sb_hmac_sha256_update sha256_engine
           (sb_hmac_sha256_init sha256_engine \<lparr>sha = Sha_zeroed, key = []\<rparr> (replicate 20 0x0b)) [0x48, 0x69, 0x20, 0x54, 0x68, 0x65, 0x72, 0x65])
        (replicate SB_SHA256_SIZE 0)
     = sb_hmac_sha256_finish sha256_engine
        (sb_hmac_sha256_update sha256_engine
           (sb_hmac_sha256_init sha256_engine \<lparr>sha = Sha_zeroed, key = []\<rparr> (replicate 20 0x0b)) [0x48, 0x69, 0x20, 0x54, 0x68, 0x65, 0x72, 0x65])
        (replicate SB_SHA256_SIZE 255)"
  using finish_output_independent [of sha256_engine "replicate SB_SHA256_SIZE 0"
      "replicate SB_SHA256_SIZE 255"
      "sb_hmac_sha256_update sha256_engine
         (sb_hmac_sha256_init sha256_engine \<lparr>sha = Sha_zeroed, key = []\<rparr> (replicate 20 0x0b)) [0x48, 0x69, 0x20, 0x54, 0x68, 0x65, 0x72, 0x65]"]
    sha256_engine_digest_size
  by simp

section \<open>Chunked updates\<close>

lemma foldl_update_concat:
  "chunk_independent E \<Longrightarrow>
   foldl (sb_hmac_sha256_update E) (sb_hmac_sha256_update E hmac m) ms =
     sb_hmac_sha256_update E hmac (m @ concat ms)"
proof (induction ms arbitrary: m)
  case Nil
  then show ?case by simp
next
  case (Cons a ms)
  have "sb_hmac_sha256_update E (sb_hmac_sha256_update E hmac m) a =
        sb_hmac_sha256_update E hmac (m @ a)"
    using Cons.prems by (simp add: sb_hmac_sha256_update_def chunk_independent_def)
  then show ?case
    using Cons.IH [OF Cons.prems, of "m @ a"] by simp
qed

text \<open>
  C4: with a chunk-independent engine, one update per chunk \<open>m\<^sub>1, \<dots>, m\<^sub>k\<close> (in order,
  \<open>k \<ge> 1\<close>) followed by finish gives the same MAC, and the same object, as a single update
  with the concatenation of the chunks followed by finish. This holds from every state of
  the object, an initialised one in particular.
\<close>

theorem update_chunk_independent:
  assumes "chunk_independent E"
  shows "sb_hmac_sha256_finish E (foldl (sb_hmac_sha256_update E) hmac (m # ms)) output =
         sb_hmac_sha256_finish E (sb_hmac_sha256_update E hmac (concat (m # ms))) output"
  using foldl_update_concat [OF assms, of hmac m ms] by simp

theorem update_chunk_independent_witness:
  "chunk_independent sha256_engine
   \<and> sb_hmac_sha256_finish sha256_engine
        (foldl (sb_hmac_sha256_update sha256_engine)
           (sb_hmac_sha256_init sha256_engine \<lparr>sha = Sha_zeroed, key = []\<rparr> (replicate 20 0x0b))
           [[0x48, 0x69], [], [0x20, 0x54, 0x68], [0x65, 0x72, 0x65]])
        (replicate SB_SHA256_SIZE 0)
     = sb_hmac_sha256_finish sha256_engine
        (sb_hmac_sha256_update sha256_engine
           (sb_hmac_sha256_init sha256_engine \<lparr>sha = Sha_zeroed, key = []\<rparr> (replicate 20 0x0b))
           [0x48, 0x69, 0x20, 0x54, 0x68, 0x65, 0x72, 0x65])
        (replicate SB_SHA256_SIZE 0)"
  using update_chunk_independent [of sha256_engine
      "sb_hmac_sha256_init sha256_engine \<lparr>sha = Sha_zeroed, key = []\<rparr> (replicate 20 0x0b)"
      "[0x48, 0x69]" "[[], [0x20, 0x54, 0x68], [0x65, 0x72, 0x65]]" "replicate SB_SHA256_SIZE 0"]
    sha256_engine_chunk_independent
  by simp

section \<open>Long keys\<close>

text \<open>
  C3: for a key longer than the block size, the one-shot MAC under the key equals the
  one-shot MAC under the digest of the key, and init leaves in the key buffer the
  digest of the key followed by 32 zero bytes. The digest of the key is what the engine
  returns for init, one update with the key, finish.
\<close>

theorem long_key_equivalence:
  assumes "digest_size_ok E" and "length k > SB_SHA256_BLOCK_SIZE"
  shows "sb_hmac_sha256 E hmac k input output =
           sb_hmac_sha256 E hmac' (engine_hash E k) input output
         \<and> key (sb_hmac_sha256_init E hmac k) =
             engine_hash E k @ replicate (SB_SHA256_BLOCK_SIZE - SB_SHA256_SIZE) 0"
proof -
  have len: "length (engine_hash E k) = SB_SHA256_SIZE"
    using assms(1) by (rule engine_hash_length)
  have "sb_hmac_sha256_init E hmac k = sb_hmac_sha256_init E hmac' (engine_hash E k)"
    using assms(2) len by (simp add: init_eq)
  moreover have "key (sb_hmac_sha256_init E hmac k) =
      engine_hash E k @ replicate (SB_SHA256_BLOCK_SIZE - SB_SHA256_SIZE) 0"
    using assms(2) len by (simp add: init_key store_bytes_def)
  ultimately show ?thesis
    by (simp add: sb_hmac_sha256_def)
qed

theorem long_key_equivalence_witness:
  "digest_size_ok sha256_engine
   \<and> length (replicate 131 (0xaa :: sb_byte_t)) > SB_SHA256_BLOCK_SIZE
   \<and> sb_hmac_sha256 sha256_engine \<lparr>sha = Sha_zeroed, key = []\<rparr> (replicate 131 0xaa) [0x48, 0x69, 0x20, 0x54, 0x68, 0x65, 0x72, 0x65]
        (replicate SB_SHA256_SIZE 0)
     = sb_hmac_sha256 sha256_engine \<lparr>sha = Sha_finished, key = [1, 2, 3]\<rparr>
         (sha256 (replicate 131 0xaa)) [0x48, 0x69, 0x20, 0x54, 0x68, 0x65, 0x72, 0x65] (replicate SB_SHA256_SIZE 0)
   \<and> key (sb_hmac_sha256_init sha256_engine \<lparr>sha = Sha_zeroed, key = []\<rparr> (replicate 131 0xaa))
     = sha256 (replicate 131 0xaa) @ replicate SB_SHA256_SIZE 0"
  using long_key_equivalence [of sha256_engine "replicate 131 0xaa"
      "\<lparr>sha = Sha_zeroed, key = []\<rparr>"
      "[0x48, 0x69, 0x20, 0x54, 0x68, 0x65, 0x72, 0x65]" "replicate SB_SHA256_SIZE 0"
      "\<lparr>sha = Sha_finished, key = [1, 2, 3]\<rparr>"]
    sha256_engine_digest_size
  by (simp add: sha256_engine_hash)

section \<open>Finish and reinit\<close>

text \<open>
  C6: after init with a key, streaming a message and finish, a reinit followed by the
  same message and finish gives the same MAC again. Finish leaves the key buffer as it
  found it, and leaves the engine in the state in which the finalisation of the outer
  hash left it: it does not initialise the engine again.
\<close>

theorem finish_reinit_round_trip:
  assumes "digest_size_ok E" and "length out1 = SB_SHA256_SIZE" and "length out2 = SB_SHA256_SIZE"
  shows "snd (sb_hmac_sha256_finish E
                (sb_hmac_sha256_update E
                   (sb_hmac_sha256_reinit E
                      (fst (sb_hmac_sha256_finish E
                              (sb_hmac_sha256_update E (sb_hmac_sha256_init E hmac' k) m) out1)))
                   m) out2)
         = snd (sb_hmac_sha256_finish E
                  (sb_hmac_sha256_update E (sb_hmac_sha256_init E hmac' k) m) out1)
         \<and> key (fst (sb_hmac_sha256_finish E hmac out1)) = key hmac
         \<and> sha (fst (sb_hmac_sha256_finish E hmac out1)) =
             fst (sb_sha256_finish E
                    (sb_sha256_update E
                       (sb_sha256_update E (sb_sha256_init E)
                          (load_bytes (key_pad_loop 0 opad (key hmac)) 0 SB_SHA256_BLOCK_SIZE))
                       (snd (sb_sha256_finish E (sha hmac)))))"
proof -
  have d: "length (snd (sb_sha256_finish E s)) = SB_SHA256_SIZE" for s
    using assms(1) by (simp add: digest_size_ok_def)
  have st: "store_bytes out 0 (snd (sb_sha256_finish E s)) = snd (sb_sha256_finish E s)"
    if "length out = SB_SHA256_SIZE" for out s
    using that d by (simp add: store_bytes_all)
  define h1 where "h1 = sb_hmac_sha256_update E (sb_hmac_sha256_init E hmac' k) m"
  define h2 where "h2 = fst (sb_hmac_sha256_finish E h1 out1)"
  have k2: "key h2 = key h1"
    by (simp add: h2_def finish_key)
  have "sb_hmac_sha256_reinit E h2 = h2\<lparr>sha := sha (sb_hmac_sha256_init E hmac' k)\<rparr>"
    using k2 by (simp add: reinit_eq h1_def sb_hmac_sha256_update_def init_eq store_bytes_def)
  then have "sb_hmac_sha256_update E (sb_hmac_sha256_reinit E h2) m = h2\<lparr>sha := sha h1\<rparr>"
    by (simp add: h1_def sb_hmac_sha256_update_def)
  then have "snd (sb_hmac_sha256_finish E (sb_hmac_sha256_update E (sb_hmac_sha256_reinit E h2) m) out2)
      = snd (sb_hmac_sha256_finish E h1 out1)"
    using k2 assms(2,3) by (simp add: finish_eq Let_def st load_bytes_all d)
  moreover have "key (fst (sb_hmac_sha256_finish E hmac out1)) = key hmac"
    by (rule finish_key)
  moreover have "sha (fst (sb_hmac_sha256_finish E hmac out1)) =
             fst (sb_sha256_finish E
                    (sb_sha256_update E
                       (sb_sha256_update E (sb_sha256_init E)
                          (load_bytes (key_pad_loop 0 opad (key hmac)) 0 SB_SHA256_BLOCK_SIZE))
                       (snd (sb_sha256_finish E (sha hmac)))))"
    using assms(2) by (simp add: finish_eq Let_def st load_bytes_all d)
  ultimately show ?thesis
    unfolding h1_def h2_def by simp
qed

theorem finish_reinit_round_trip_witness:
  "digest_size_ok sha256_engine
   \<and> length (replicate SB_SHA256_SIZE (0 :: sb_byte_t)) = SB_SHA256_SIZE
   \<and> length (replicate SB_SHA256_SIZE (255 :: sb_byte_t)) = SB_SHA256_SIZE
   \<and> snd (sb_hmac_sha256_finish sha256_engine
            (sb_hmac_sha256_update sha256_engine
               (sb_hmac_sha256_reinit sha256_engine
                  (fst (sb_hmac_sha256_finish sha256_engine
                          (sb_hmac_sha256_update sha256_engine
                             (sb_hmac_sha256_init sha256_engine \<lparr>sha = Sha_zeroed, key = []\<rparr> (replicate 20 0x0b))
                             [0x48, 0x69, 0x20, 0x54, 0x68, 0x65, 0x72, 0x65])
                          (replicate SB_SHA256_SIZE 0))))
               [0x48, 0x69, 0x20, 0x54, 0x68, 0x65, 0x72, 0x65])
            (replicate SB_SHA256_SIZE 255))
     = snd (sb_hmac_sha256_finish sha256_engine
              (sb_hmac_sha256_update sha256_engine
                 (sb_hmac_sha256_init sha256_engine \<lparr>sha = Sha_zeroed, key = []\<rparr> (replicate 20 0x0b))
                 [0x48, 0x69, 0x20, 0x54, 0x68, 0x65, 0x72, 0x65])
              (replicate SB_SHA256_SIZE 0))
   \<and> sha (fst (sb_hmac_sha256_finish sha256_engine
                  (sb_hmac_sha256_init sha256_engine \<lparr>sha = Sha_zeroed, key = []\<rparr> (replicate 20 0x0b))
                  (replicate SB_SHA256_SIZE 0))) = Sha_finished"
  using finish_reinit_round_trip [where E = sha256_engine and ?out1.0 = "replicate SB_SHA256_SIZE 0"
      and ?out2.0 = "replicate SB_SHA256_SIZE 255" and hmac' = "\<lparr>sha = Sha_zeroed, key = []\<rparr>"
      and k = "replicate 20 0x0b"
      and m = "[0x48, 0x69, 0x20, 0x54, 0x68, 0x65, 0x72, 0x65]"
      and hmac = "sb_hmac_sha256_init sha256_engine \<lparr>sha = Sha_zeroed, key = []\<rparr> (replicate 20 0x0b)"]
    sha256_engine_digest_size
  by (simp add: sha256_engine_def)

section \<open>Key collapse\<close>

lemma finish_to_key_eq:
  assumes d: "digest_size_ok E" and c: "chunk_independent E"
    and k: "key hmac = k @ replicate SB_SHA256_SIZE 0" and lk: "length k = SB_SHA256_SIZE"
  shows "sb_hmac_sha256_finish_to_key E hmac =
           sb_hmac_sha256_reinit E
             (hmac\<lparr>key := engine_hash E (map (\<lambda>b. b XOR opad) (key hmac)
                                            @ snd (sb_sha256_finish E (sha hmac)))
                            @ replicate SB_SHA256_SIZE 0\<rparr>)"
proof -
  define inner where "inner = snd (sb_sha256_finish E (sha hmac))"
  define ok where "ok = map (\<lambda>b. b XOR opad) k"
  have li: "length inner = SB_SHA256_SIZE"
    using d by (simp add: inner_def digest_size_ok_def)
  have lo: "length ok = SB_SHA256_SIZE"
    using lk by (simp add: ok_def)
  have padded: "key_pad_loop 0 opad (key hmac) = ok @ replicate SB_SHA256_SIZE opad"
    using lk by (simp add: key_pad_loop_map k ok_def)
  have mapped: "map (\<lambda>b. b XOR opad) (key hmac) = ok @ replicate SB_SHA256_SIZE opad"
    by (simp add: k ok_def)
  define outer where
    "outer = sb_sha256_finish E (sb_sha256_update E (sb_sha256_init E)
                                   (ok @ replicate SB_SHA256_SIZE opad @ inner))"
  have lout: "length (snd outer) = SB_SHA256_SIZE"
    using d by (simp add: outer_def digest_size_ok_def)
  have s1: "store_bytes (ok @ replicate SB_SHA256_SIZE opad) SB_SHA256_SIZE inner = ok @ inner"
    using lo li by (simp add: store_bytes_def)
  have s2: "store_bytes (ok @ inner) 0 (replicate SB_SHA256_SIZE opad) =
            replicate SB_SHA256_SIZE opad @ inner"
    using lo by (simp add: store_bytes_def)
  have s3: "store_bytes (replicate SB_SHA256_SIZE opad @ inner) 0 (snd outer) = snd outer @ inner"
    using lout by (simp add: store_bytes_def)
  have s4: "store_bytes (snd outer @ inner) SB_SHA256_SIZE (replicate SB_SHA256_SIZE 0) =
            snd outer @ replicate SB_SHA256_SIZE 0"
    using lout li by (simp add: store_bytes_def)
  have l1: "load_bytes (ok @ inner) 0 SB_SHA256_SIZE = ok"
    using lo by (simp add: load_bytes_def)
  have l2: "load_bytes (replicate SB_SHA256_SIZE opad @ inner) 0 SB_SHA256_SIZE =
            replicate SB_SHA256_SIZE opad"
    by (simp add: load_bytes_def)
  have l3: "load_bytes (replicate SB_SHA256_SIZE opad @ inner) SB_SHA256_SIZE SB_SHA256_SIZE = inner"
    using li by (simp add: load_bytes_def)
  have upd: "sb_sha256_update E
               (sb_sha256_update E (sb_sha256_update E (sb_sha256_init E) ok)
                  (replicate SB_SHA256_SIZE opad)) inner
             = sb_sha256_update E (sb_sha256_init E) (ok @ replicate SB_SHA256_SIZE opad @ inner)"
    using c by (simp add: chunk_independent_def)
  have "sb_hmac_sha256_finish_to_key E hmac =
          sb_hmac_sha256_reinit E (hmac\<lparr>sha := fst outer, key := snd outer @ replicate SB_SHA256_SIZE 0\<rparr>)"
    unfolding sb_hmac_sha256_finish_to_key_def
    by (simp add: Let_def split_beta padded inner_def [symmetric] s1 s2 s3 s4 l1 l2 l3 upd
        outer_def [symmetric] sb_hmac_sha256_key_pad_def)
  also have "\<dots> = sb_hmac_sha256_reinit E (hmac\<lparr>key := snd outer @ replicate SB_SHA256_SIZE 0\<rparr>)"
    by (simp add: reinit_eq)
  finally show ?thesis
    by (simp add: outer_def engine_hash_def mapped inner_def)
qed

lemma finish_mac_eq:
  assumes d: "digest_size_ok E" and c: "chunk_independent E"
    and lk: "length (key hmac) = SB_SHA256_BLOCK_SIZE" and lo: "length output = SB_SHA256_SIZE"
  shows "snd (sb_hmac_sha256_finish E hmac output) =
           engine_hash E (map (\<lambda>b. b XOR opad) (key hmac) @ snd (sb_sha256_finish E (sha hmac)))"
proof -
  have dl: "length (snd (sb_sha256_finish E s)) = SB_SHA256_SIZE" for s
    using d by (simp add: digest_size_ok_def)
  have st: "store_bytes out 0 (snd (sb_sha256_finish E s)) = snd (sb_sha256_finish E s)"
    if "length out = SB_SHA256_SIZE" for out s
    using that dl by (simp add: store_bytes_all)
  have padded: "key_pad_loop 0 opad (key hmac) = map (\<lambda>b. b XOR opad) (key hmac)"
    using lk by (simp add: key_pad_loop_map)
  have upd: "sb_sha256_update E (sb_sha256_update E s a) b = sb_sha256_update E s (a @ b)" for s a b
    using c by (simp add: chunk_independent_def)
  show ?thesis
    using lk lo by (simp add: finish_eq Let_def st dl load_bytes_all padded upd engine_hash_def)
qed



section \<open>Buffer hygiene\<close>

lemma finish_to_key_key:
  assumes "digest_size_ok E" and "length (key hmac) = SB_SHA256_BLOCK_SIZE"
  shows "key (sb_hmac_sha256_finish_to_key E hmac) =
           snd (sb_sha256_finish E
                  (sb_sha256_update E
                     (sb_sha256_update E
                        (sb_sha256_update E (sb_sha256_init E)
                           (take SB_SHA256_SIZE (map (\<lambda>b. b XOR opad) (key hmac))))
                        (replicate SB_SHA256_SIZE opad))
                     (snd (sb_sha256_finish E (sha hmac)))))
           @ replicate SB_SHA256_SIZE 0"
proof -
  have d: "length (snd (sb_sha256_finish E s)) = SB_SHA256_SIZE" for s
    using assms(1) by (simp add: digest_size_ok_def)
  have padded: "key_pad_loop 0 opad (key hmac) = map (\<lambda>b. b XOR opad) (key hmac)"
    using assms(2) by (simp add: key_pad_loop_map)
  show ?thesis
    unfolding sb_hmac_sha256_finish_to_key_def
    using assms(2)
    by (simp add: Let_def split_beta reinit_key store_bytes_def load_bytes_def d padded take_map)
qed

lemma finish_to_key_mac:
  assumes d: "digest_size_ok E" and c: "chunk_independent E"
    and lk: "length (key hmac) = SB_SHA256_BLOCK_SIZE"
    and z: "drop SB_SHA256_SIZE (key hmac) = replicate SB_SHA256_SIZE 0"
    and lo: "length output = SB_SHA256_SIZE"
  shows "key (sb_hmac_sha256_finish_to_key E hmac) =
           snd (sb_hmac_sha256_finish E hmac output) @ replicate SB_SHA256_SIZE 0"
proof -
  have k: "key hmac = take SB_SHA256_SIZE (key hmac) @ replicate SB_SHA256_SIZE 0"
    using z append_take_drop_id [of SB_SHA256_SIZE "key hmac"] by simp
  have l: "length (take SB_SHA256_SIZE (key hmac)) = SB_SHA256_SIZE"
    using lk by simp
  show ?thesis
    by (simp add: finish_to_key_eq [OF d c k l] finish_mac_eq [OF d c lk lo] reinit_key)
qed

text \<open>
  C5: the key buffer holds the current logical key, zero-extended to 64 bytes, at the end
  of every public operation that started from a 64-byte key buffer, with an engine whose
  digests have 32 bytes.
  \<^item> Init establishes this from any prior content: the buffer is the key (or its digest,
    for a key longer than a block) followed by zero bytes, 64 bytes in all.
  \<^item> Reinit, update and finish leave the buffer byte for byte as it was: no pad-mixed
    byte outlives the operation.
  \<^item> \<open>finish_to_key\<close> leaves the new key followed by 32 zero bytes. The new key is the
    digest that the engine returns for the first half of the outer-padded buffer, 32 outer
    pad bytes and the inner digest, absorbed in this order; no byte of the buffer is a
    padded key byte or a pad byte. When the second half of the buffer was zero and the
    engine is chunk-independent, the new key is the MAC that finish returns.
  \<^item> The one-shot function leaves what init left.
\<close>

theorem key_buffer_hygiene:
  assumes "digest_size_ok E" and "length (key hmac) = SB_SHA256_BLOCK_SIZE"
  shows "key (sb_hmac_sha256_init E hmac0 k) =
           (if length k > SB_SHA256_BLOCK_SIZE then engine_hash E k else k)
           @ replicate (SB_SHA256_BLOCK_SIZE
                        - length (if length k > SB_SHA256_BLOCK_SIZE then engine_hash E k else k)) 0
         \<and> length (key (sb_hmac_sha256_init E hmac0 k)) = SB_SHA256_BLOCK_SIZE
         \<and> key (sb_hmac_sha256_reinit E hmac) = key hmac
         \<and> key (sb_hmac_sha256_update E hmac input) = key hmac
         \<and> key (fst (sb_hmac_sha256_finish E hmac output)) = key hmac
         \<and> key (sb_hmac_sha256_finish_to_key E hmac) =
             snd (sb_sha256_finish E
                    (sb_sha256_update E
                       (sb_sha256_update E
                          (sb_sha256_update E (sb_sha256_init E)
                             (take SB_SHA256_SIZE (map (\<lambda>b. b XOR opad) (key hmac))))
                          (replicate SB_SHA256_SIZE opad))
                       (snd (sb_sha256_finish E (sha hmac)))))
             @ replicate SB_SHA256_SIZE 0
         \<and> drop SB_SHA256_SIZE (key (sb_hmac_sha256_finish_to_key E hmac)) = replicate SB_SHA256_SIZE 0
         \<and> length (key (sb_hmac_sha256_finish_to_key E hmac)) = SB_SHA256_BLOCK_SIZE
         \<and> (chunk_independent E \<and> drop SB_SHA256_SIZE (key hmac) = replicate SB_SHA256_SIZE 0
              \<and> length output = SB_SHA256_SIZE \<longrightarrow>
              key (sb_hmac_sha256_finish_to_key E hmac) =
                snd (sb_hmac_sha256_finish E hmac output) @ replicate SB_SHA256_SIZE 0)
         \<and> key (fst (sb_hmac_sha256 E hmac0 k input output)) = key (sb_hmac_sha256_init E hmac0 k)"
proof -
  have len: "length (engine_hash E k) = SB_SHA256_SIZE"
    using assms(1) by (rule engine_hash_length)
  have d: "length (snd (sb_sha256_finish E s)) = SB_SHA256_SIZE" for s
    using assms(1) by (simp add: digest_size_ok_def)
  have 1: "key (sb_hmac_sha256_init E hmac0 k) =
           (if length k > SB_SHA256_BLOCK_SIZE then engine_hash E k else k)
           @ replicate (SB_SHA256_BLOCK_SIZE
                        - length (if length k > SB_SHA256_BLOCK_SIZE then engine_hash E k else k)) 0"
    using len by (simp add: init_key store_bytes_def)
  have 2: "length (key (sb_hmac_sha256_init E hmac0 k)) = SB_SHA256_BLOCK_SIZE"
    unfolding 1 using len by simp
  have 3: "key (sb_hmac_sha256_update E hmac input) = key hmac" for hmac :: "'a sb_hmac_sha256_state_t"
    by (simp add: sb_hmac_sha256_update_def)
  have 4: "key (fst (sb_hmac_sha256 E hmac0 k input output)) = key (sb_hmac_sha256_init E hmac0 k)"
    by (simp add: sb_hmac_sha256_def finish_key 3)
  note 5 = finish_to_key_key [OF assms]
  have 6: "drop SB_SHA256_SIZE (key (sb_hmac_sha256_finish_to_key E hmac)) = replicate SB_SHA256_SIZE 0"
    unfolding 5 using d by simp
  have 7: "length (key (sb_hmac_sha256_finish_to_key E hmac)) = SB_SHA256_BLOCK_SIZE"
    unfolding 5 using d by simp
  have 8: "chunk_independent E \<and> drop SB_SHA256_SIZE (key hmac) = replicate SB_SHA256_SIZE 0
              \<and> length output = SB_SHA256_SIZE \<longrightarrow>
              key (sb_hmac_sha256_finish_to_key E hmac) =
                snd (sb_hmac_sha256_finish E hmac output) @ replicate SB_SHA256_SIZE 0"
    using finish_to_key_mac [OF assms(1) _ assms(2)] by blast
  from 1 2 3 [of hmac] 4 5 6 7 8 reinit_key [of E hmac] finish_key [of E hmac "output"]
  show ?thesis
    by (intro conjI)
qed

theorem key_buffer_hygiene_witness:
  "digest_size_ok sha256_engine \<and> chunk_independent sha256_engine
   \<and> length (key (sb_hmac_sha256_update sha256_engine
                    (sb_hmac_sha256_init sha256_engine \<lparr>sha = Sha_zeroed, key = []\<rparr>
                       (replicate 32 0x0b))
                    [0x48, 0x69])) = SB_SHA256_BLOCK_SIZE
   \<and> drop SB_SHA256_SIZE
        (key (sb_hmac_sha256_update sha256_engine
                (sb_hmac_sha256_init sha256_engine \<lparr>sha = Sha_zeroed, key = []\<rparr>
                   (replicate 32 0x0b))
                [0x48, 0x69])) = replicate SB_SHA256_SIZE 0
   \<and> length (replicate SB_SHA256_SIZE (0 :: sb_byte_t)) = SB_SHA256_SIZE
   \<and> key (sb_hmac_sha256_init sha256_engine \<lparr>sha = Sha_zeroed, key = []\<rparr> (replicate 20 0x0b))
     = replicate 20 0x0b @ replicate 44 0
   \<and> key (fst (sb_hmac_sha256_finish sha256_engine
                 (sb_hmac_sha256_update sha256_engine
                    (sb_hmac_sha256_init sha256_engine \<lparr>sha = Sha_zeroed, key = []\<rparr>
                       (replicate 32 0x0b))
                    [0x48, 0x69])
                 (replicate SB_SHA256_SIZE 0)))
     = replicate 32 0x0b @ replicate 32 0
   \<and> key (sb_hmac_sha256_finish_to_key sha256_engine
            (sb_hmac_sha256_update sha256_engine
               (sb_hmac_sha256_init sha256_engine \<lparr>sha = Sha_zeroed, key = []\<rparr>
                  (replicate 32 0x0b))
               [0x48, 0x69]))
     = snd (sb_hmac_sha256_finish sha256_engine
              (sb_hmac_sha256_update sha256_engine
                 (sb_hmac_sha256_init sha256_engine \<lparr>sha = Sha_zeroed, key = []\<rparr>
                    (replicate 32 0x0b))
                 [0x48, 0x69])
              (replicate SB_SHA256_SIZE 0))
       @ replicate SB_SHA256_SIZE 0"
proof -
  define h where
    "h = sb_hmac_sha256_update sha256_engine
           (sb_hmac_sha256_init sha256_engine \<lparr>sha = Sha_zeroed, key = []\<rparr> (replicate 32 0x0b))
           [0x48, 0x69]"
  have k: "key h = replicate 32 0x0b @ replicate 32 0"
    by (simp add: h_def sb_hmac_sha256_update_def init_key store_bytes_def)
  have l: "length (key h) = SB_SHA256_BLOCK_SIZE"
    by (simp add: k)
  have z: "drop SB_SHA256_SIZE (key h) = replicate SB_SHA256_SIZE 0"
    by (simp add: k)
  have o: "length (replicate SB_SHA256_SIZE (0 :: sb_byte_t)) = SB_SHA256_SIZE"
    by simp
  note t = key_buffer_hygiene [OF sha256_engine_digest_size l,
      of "\<lparr>sha = Sha_zeroed, key = []\<rparr>" "replicate 20 0x0b" "[]" "replicate SB_SHA256_SIZE 0"]
  have a: "key (sb_hmac_sha256_init sha256_engine \<lparr>sha = Sha_zeroed, key = []\<rparr> (replicate 20 0x0b))
     = replicate 20 0x0b @ replicate 44 0"
    using t by simp
  have b: "key (fst (sb_hmac_sha256_finish sha256_engine h (replicate SB_SHA256_SIZE 0)))
     = replicate 32 0x0b @ replicate 32 0"
    using t k by simp
  have c: "key (sb_hmac_sha256_finish_to_key sha256_engine h)
     = snd (sb_hmac_sha256_finish sha256_engine h (replicate SB_SHA256_SIZE 0))
       @ replicate SB_SHA256_SIZE 0"
    using t sha256_engine_chunk_independent z o by blast
  from sha256_engine_digest_size sha256_engine_chunk_independent l z o a b c
  show ?thesis
    unfolding h_def by (intro conjI)
qed

section \<open>The one-shot MAC in closed form\<close>

lemma hmac_short_key:
  assumes d: "digest_size_ok E" and c: "chunk_independent E"
    and lk: "length k \<le> SB_SHA256_BLOCK_SIZE" and lo: "length output = SB_SHA256_SIZE"
  shows "snd (sb_hmac_sha256 E hmac k input output) =
           engine_hash E
             (map (\<lambda>b. b XOR opad) (k @ replicate (SB_SHA256_BLOCK_SIZE - length k) 0)
              @ engine_hash E
                  (map (\<lambda>b. b XOR ipad) (k @ replicate (SB_SHA256_BLOCK_SIZE - length k) 0)
                   @ input))"
proof -
  define kz where "kz = k @ replicate (SB_SHA256_BLOCK_SIZE - length k) 0"
  have lkz: "length kz = SB_SHA256_BLOCK_SIZE"
    using lk by (simp add: kz_def)
  define h where "h = sb_hmac_sha256_update E (sb_hmac_sha256_init E hmac k) input"
  have kh: "key h = kz"
    using lk by (simp add: h_def sb_hmac_sha256_update_def init_key store_zero_extend kz_def)
  have "sha (sb_hmac_sha256_init E hmac k) =
          sb_sha256_update E (sb_sha256_init E) (map (\<lambda>b. b XOR ipad) kz)"
    using lk lkz
    by (simp add: init_eq reinit_eq store_zero_extend kz_def [symmetric] key_pad_loop_map
        load_bytes_all)
  then have sh: "sha h = sb_sha256_update E (sb_sha256_init E) (map (\<lambda>b. b XOR ipad) kz @ input)"
    using c by (simp add: h_def sb_hmac_sha256_update_def chunk_independent_def)
  have "snd (sb_hmac_sha256_finish E h output) =
          engine_hash E (map (\<lambda>b. b XOR opad) (key h) @ snd (sb_sha256_finish E (sha h)))"
    using d c _ lo by (rule finish_mac_eq) (simp add: kh lkz)
  then show ?thesis
    by (simp add: sb_hmac_sha256_def h_def [symmetric] kh sh engine_hash_def kz_def)
qed

section \<open>SHA-256 of a message of two blocks\<close>

lemma replicate_numeral: "replicate (numeral k) x = x # replicate (pred_numeral k) x"
  by (simp add: numeral_eq_Suc)

lemma chunks64_short: "length bs < 64 \<Longrightarrow> chunks64 bs = []"
  by (subst chunks64.simps) simp

lemma chunks64_step: "64 \<le> length bs \<Longrightarrow> chunks64 bs = take 64 bs # chunks64 (drop 64 bs)"
  by (subst chunks64.simps) simp

lemma sha256_two_blocks:
  assumes "length m = 64 + n" and "n < 56"
  shows "sha256 m =
           hash_bytes
             (compress (compress H256_init (take 64 m))
                (drop 64 m @ 0x80 # replicate (55 - n) 0 @ word_bytes 0
                 @ word_bytes (int (8 * (64 + n)))))"
proof -
  have e: "119 - n = 55 - n + 64"
    using assms by simp
  have "(119 - n) mod 64 = 55 - n"
    unfolding e by simp
  then have z: "(119 - length m mod 64) mod 64 = 55 - n"
    using assms by simp
  have hi: "int (8 * length m) div 4294967296 = 0"
    using assms by simp
  have lo: "int (8 * length m) mod 4294967296 = int (8 * (64 + n))"
    using assms by simp
  define tail where
    "tail = drop 64 m @ 0x80 # replicate (55 - n) 0 @ word_bytes 0 @ word_bytes (int (8 * (64 + n)))"
  have lt: "length tail = 64"
    using assms by (simp add: tail_def)
  have p: "pad256 m = take 64 m @ tail"
    unfolding pad256_def z hi lo tail_def by simp
  have "chunks64 (pad256 m) = [take 64 m, tail]"
    using assms lt by (simp add: p chunks64_step chunks64_short)
  then show ?thesis
    by (simp add: sha256_def tail_def)
qed

section \<open>The test vectors\<close>

lemma v1_inner_block1:
  "compress_words H256_init
    [0x3d3d3d3d, 0x3d3d3d3d, 0x3d3d3d3d, 0x3d3d3d3d, 0x3d3d3d3d, 0x36363636, 0x36363636, 0x36363636,
     0x36363636, 0x36363636, 0x36363636, 0x36363636, 0x36363636, 0x36363636, 0x36363636, 0x36363636]
   = Hash8 0x2bb21804 0x23b95bf9 0xb4e8258c 0xfab5e654 0x11f2921e 0x4feb78ee 0x9890e5fe 0x64b78036"
  by code_simp

lemma v1_inner_block2:
  "compress_words (Hash8 0x2bb21804 0x23b95bf9 0xb4e8258c 0xfab5e654 0x11f2921e 0x4feb78ee 0x9890e5fe 0x64b78036)
    [0x48692054, 0x68657265, 0x80000000, 0x00000000, 0x00000000, 0x00000000, 0x00000000, 0x00000000,
     0x00000000, 0x00000000, 0x00000000, 0x00000000, 0x00000000, 0x00000000, 0x00000000, 0x00000240]
   = Hash8 0x92ab4d9a 0x1f3b6152 0xbca9dd9e 0x69af43f4 0xce99e42f 0xd4e30ff9 0x72c48025 0xb9f9cfef"
  by code_simp

lemma v1_outer_block1:
  "compress_words H256_init
    [0x57575757, 0x57575757, 0x57575757, 0x57575757, 0x57575757, 0x5c5c5c5c, 0x5c5c5c5c, 0x5c5c5c5c,
     0x5c5c5c5c, 0x5c5c5c5c, 0x5c5c5c5c, 0x5c5c5c5c, 0x5c5c5c5c, 0x5c5c5c5c, 0x5c5c5c5c, 0x5c5c5c5c]
   = Hash8 0x27e7739f 0xd9562583 0x56d666e2 0x5f810de8 0xec5e4f8a 0x553d4fb8 0x3cff20ba 0x10234b40"
  by code_simp

lemma v1_outer_block2:
  "compress_words (Hash8 0x27e7739f 0xd9562583 0x56d666e2 0x5f810de8 0xec5e4f8a 0x553d4fb8 0x3cff20ba 0x10234b40)
    [0x92ab4d9a, 0x1f3b6152, 0xbca9dd9e, 0x69af43f4, 0xce99e42f, 0xd4e30ff9, 0x72c48025, 0xb9f9cfef,
     0x80000000, 0x00000000, 0x00000000, 0x00000000, 0x00000000, 0x00000000, 0x00000000, 0x00000300]
   = Hash8 0xb0344c61 0xd8db3853 0x5ca8afce 0xaf0bf12b 0x881dc200 0xc9833da7 0x26e9376c 0x2e32cff7"
  by code_simp

lemma v1_inner_input:
  "map (\<lambda>b. b XOR ipad) (TEST_K1 @ replicate (SB_SHA256_BLOCK_SIZE - length TEST_K1) 0) @ TEST_M1 =
    [0x3d, 0x3d, 0x3d, 0x3d, 0x3d, 0x3d, 0x3d, 0x3d, 0x3d, 0x3d, 0x3d, 0x3d,
     0x3d, 0x3d, 0x3d, 0x3d, 0x3d, 0x3d, 0x3d, 0x3d, 0x36, 0x36, 0x36, 0x36,
     0x36, 0x36, 0x36, 0x36, 0x36, 0x36, 0x36, 0x36, 0x36, 0x36, 0x36, 0x36,
     0x36, 0x36, 0x36, 0x36, 0x36, 0x36, 0x36, 0x36, 0x36, 0x36, 0x36, 0x36,
     0x36, 0x36, 0x36, 0x36, 0x36, 0x36, 0x36, 0x36, 0x36, 0x36, 0x36, 0x36,
     0x36, 0x36, 0x36, 0x36, 0x48, 0x69, 0x20, 0x54, 0x68, 0x65, 0x72, 0x65]"
  by (simp add: TEST_K1_def TEST_M1_def ipad_def replicate_numeral)

lemma v1_inner_digest:
  "sha256
    [0x3d, 0x3d, 0x3d, 0x3d, 0x3d, 0x3d, 0x3d, 0x3d, 0x3d, 0x3d, 0x3d, 0x3d,
     0x3d, 0x3d, 0x3d, 0x3d, 0x3d, 0x3d, 0x3d, 0x3d, 0x36, 0x36, 0x36, 0x36,
     0x36, 0x36, 0x36, 0x36, 0x36, 0x36, 0x36, 0x36, 0x36, 0x36, 0x36, 0x36,
     0x36, 0x36, 0x36, 0x36, 0x36, 0x36, 0x36, 0x36, 0x36, 0x36, 0x36, 0x36,
     0x36, 0x36, 0x36, 0x36, 0x36, 0x36, 0x36, 0x36, 0x36, 0x36, 0x36, 0x36,
     0x36, 0x36, 0x36, 0x36, 0x48, 0x69, 0x20, 0x54, 0x68, 0x65, 0x72, 0x65]
   = [0x92, 0xab, 0x4d, 0x9a, 0x1f, 0x3b, 0x61, 0x52, 0xbc, 0xa9, 0xdd, 0x9e,
     0x69, 0xaf, 0x43, 0xf4, 0xce, 0x99, 0xe4, 0x2f, 0xd4, 0xe3, 0x0f, 0xf9,
     0x72, 0xc4, 0x80, 0x25, 0xb9, 0xf9, 0xcf, 0xef]"
  by (subst sha256_two_blocks [where n = 8])
     (simp_all add: compress_def word_bytes_def replicate_numeral v1_inner_block1 v1_inner_block2)

lemma v1_outer_input:
  "map (\<lambda>b. b XOR opad) (TEST_K1 @ replicate (SB_SHA256_BLOCK_SIZE - length TEST_K1) 0) @
    [0x92, 0xab, 0x4d, 0x9a, 0x1f, 0x3b, 0x61, 0x52, 0xbc, 0xa9, 0xdd, 0x9e,
     0x69, 0xaf, 0x43, 0xf4, 0xce, 0x99, 0xe4, 0x2f, 0xd4, 0xe3, 0x0f, 0xf9,
     0x72, 0xc4, 0x80, 0x25, 0xb9, 0xf9, 0xcf, 0xef] =
    [0x57, 0x57, 0x57, 0x57, 0x57, 0x57, 0x57, 0x57, 0x57, 0x57, 0x57, 0x57,
     0x57, 0x57, 0x57, 0x57, 0x57, 0x57, 0x57, 0x57, 0x5c, 0x5c, 0x5c, 0x5c,
     0x5c, 0x5c, 0x5c, 0x5c, 0x5c, 0x5c, 0x5c, 0x5c, 0x5c, 0x5c, 0x5c, 0x5c,
     0x5c, 0x5c, 0x5c, 0x5c, 0x5c, 0x5c, 0x5c, 0x5c, 0x5c, 0x5c, 0x5c, 0x5c,
     0x5c, 0x5c, 0x5c, 0x5c, 0x5c, 0x5c, 0x5c, 0x5c, 0x5c, 0x5c, 0x5c, 0x5c,
     0x5c, 0x5c, 0x5c, 0x5c, 0x92, 0xab, 0x4d, 0x9a, 0x1f, 0x3b, 0x61, 0x52,
     0xbc, 0xa9, 0xdd, 0x9e, 0x69, 0xaf, 0x43, 0xf4, 0xce, 0x99, 0xe4, 0x2f,
     0xd4, 0xe3, 0x0f, 0xf9, 0x72, 0xc4, 0x80, 0x25, 0xb9, 0xf9, 0xcf, 0xef]"
  by (simp add: TEST_K1_def opad_def replicate_numeral)

lemma v1_outer_digest:
  "sha256
    [0x57, 0x57, 0x57, 0x57, 0x57, 0x57, 0x57, 0x57, 0x57, 0x57, 0x57, 0x57,
     0x57, 0x57, 0x57, 0x57, 0x57, 0x57, 0x57, 0x57, 0x5c, 0x5c, 0x5c, 0x5c,
     0x5c, 0x5c, 0x5c, 0x5c, 0x5c, 0x5c, 0x5c, 0x5c, 0x5c, 0x5c, 0x5c, 0x5c,
     0x5c, 0x5c, 0x5c, 0x5c, 0x5c, 0x5c, 0x5c, 0x5c, 0x5c, 0x5c, 0x5c, 0x5c,
     0x5c, 0x5c, 0x5c, 0x5c, 0x5c, 0x5c, 0x5c, 0x5c, 0x5c, 0x5c, 0x5c, 0x5c,
     0x5c, 0x5c, 0x5c, 0x5c, 0x92, 0xab, 0x4d, 0x9a, 0x1f, 0x3b, 0x61, 0x52,
     0xbc, 0xa9, 0xdd, 0x9e, 0x69, 0xaf, 0x43, 0xf4, 0xce, 0x99, 0xe4, 0x2f,
     0xd4, 0xe3, 0x0f, 0xf9, 0x72, 0xc4, 0x80, 0x25, 0xb9, 0xf9, 0xcf, 0xef]
   = TEST_H1"
  unfolding TEST_H1_def
  by (subst sha256_two_blocks [where n = 32])
     (simp_all add: compress_def word_bytes_def replicate_numeral v1_outer_block1 v1_outer_block2)

lemma v1_mac:
  "sha256 (map (\<lambda>b. b XOR opad) (TEST_K1 @ replicate (SB_SHA256_BLOCK_SIZE - length TEST_K1) 0) @
           sha256 (map (\<lambda>b. b XOR ipad) (TEST_K1 @ replicate (SB_SHA256_BLOCK_SIZE - length TEST_K1) 0) @ TEST_M1))
   = TEST_H1"
  by (simp only: v1_inner_input v1_inner_digest v1_outer_input v1_outer_digest)

lemma v2_inner_block1:
  "compress_words H256_init
    [0x7c535053, 0x36363636, 0x36363636, 0x36363636, 0x36363636, 0x36363636, 0x36363636, 0x36363636,
     0x36363636, 0x36363636, 0x36363636, 0x36363636, 0x36363636, 0x36363636, 0x36363636, 0x36363636]
   = Hash8 0x655da7fa 0xcc434b37 0x5a1cd5cb 0x0692ee0e 0xa47a23d3 0x4c3af449 0xdba21ae2 0x78c7500c"
  by code_simp

lemma v2_inner_block2:
  "compress_words (Hash8 0x655da7fa 0xcc434b37 0x5a1cd5cb 0x0692ee0e 0xa47a23d3 0x4c3af449 0xdba21ae2 0x78c7500c)
    [0x77686174, 0x20646f20, 0x79612077, 0x616e7420, 0x666f7220, 0x6e6f7468, 0x696e673f, 0x80000000,
     0x00000000, 0x00000000, 0x00000000, 0x00000000, 0x00000000, 0x00000000, 0x00000000, 0x000002e0]
   = Hash8 0xa2e48586 0x3d27f9d8 0x64ac8d80 0x2432a1ed 0x477d8c4c 0x6f349d16 0xd4e7e917 0xc629cad7"
  by code_simp

lemma v2_outer_block1:
  "compress_words H256_init
    [0x16393a39, 0x5c5c5c5c, 0x5c5c5c5c, 0x5c5c5c5c, 0x5c5c5c5c, 0x5c5c5c5c, 0x5c5c5c5c, 0x5c5c5c5c,
     0x5c5c5c5c, 0x5c5c5c5c, 0x5c5c5c5c, 0x5c5c5c5c, 0x5c5c5c5c, 0x5c5c5c5c, 0x5c5c5c5c, 0x5c5c5c5c]
   = Hash8 0x0eafe3d5 0x13412e6c 0x6a6a2feb 0x2d375acc 0x51a4fd47 0x6db095e8 0x23bfa18a 0x52f141d5"
  by code_simp

lemma v2_outer_block2:
  "compress_words (Hash8 0x0eafe3d5 0x13412e6c 0x6a6a2feb 0x2d375acc 0x51a4fd47 0x6db095e8 0x23bfa18a 0x52f141d5)
    [0xa2e48586, 0x3d27f9d8, 0x64ac8d80, 0x2432a1ed, 0x477d8c4c, 0x6f349d16, 0xd4e7e917, 0xc629cad7,
     0x80000000, 0x00000000, 0x00000000, 0x00000000, 0x00000000, 0x00000000, 0x00000000, 0x00000300]
   = Hash8 0x5bdcc146 0xbf60754e 0x6a042426 0x089575c7 0x5a003f08 0x9d273983 0x9dec58b9 0x64ec3843"
  by code_simp

lemma v2_inner_input:
  "map (\<lambda>b. b XOR ipad) (TEST_K2 @ replicate (SB_SHA256_BLOCK_SIZE - length TEST_K2) 0) @ TEST_M2 =
    [0x7c, 0x53, 0x50, 0x53, 0x36, 0x36, 0x36, 0x36, 0x36, 0x36, 0x36, 0x36,
     0x36, 0x36, 0x36, 0x36, 0x36, 0x36, 0x36, 0x36, 0x36, 0x36, 0x36, 0x36,
     0x36, 0x36, 0x36, 0x36, 0x36, 0x36, 0x36, 0x36, 0x36, 0x36, 0x36, 0x36,
     0x36, 0x36, 0x36, 0x36, 0x36, 0x36, 0x36, 0x36, 0x36, 0x36, 0x36, 0x36,
     0x36, 0x36, 0x36, 0x36, 0x36, 0x36, 0x36, 0x36, 0x36, 0x36, 0x36, 0x36,
     0x36, 0x36, 0x36, 0x36, 0x77, 0x68, 0x61, 0x74, 0x20, 0x64, 0x6f, 0x20,
     0x79, 0x61, 0x20, 0x77, 0x61, 0x6e, 0x74, 0x20, 0x66, 0x6f, 0x72, 0x20,
     0x6e, 0x6f, 0x74, 0x68, 0x69, 0x6e, 0x67, 0x3f]"
  by (simp add: TEST_K2_def TEST_M2_def ipad_def replicate_numeral)

lemma v2_inner_digest:
  "sha256
    [0x7c, 0x53, 0x50, 0x53, 0x36, 0x36, 0x36, 0x36, 0x36, 0x36, 0x36, 0x36,
     0x36, 0x36, 0x36, 0x36, 0x36, 0x36, 0x36, 0x36, 0x36, 0x36, 0x36, 0x36,
     0x36, 0x36, 0x36, 0x36, 0x36, 0x36, 0x36, 0x36, 0x36, 0x36, 0x36, 0x36,
     0x36, 0x36, 0x36, 0x36, 0x36, 0x36, 0x36, 0x36, 0x36, 0x36, 0x36, 0x36,
     0x36, 0x36, 0x36, 0x36, 0x36, 0x36, 0x36, 0x36, 0x36, 0x36, 0x36, 0x36,
     0x36, 0x36, 0x36, 0x36, 0x77, 0x68, 0x61, 0x74, 0x20, 0x64, 0x6f, 0x20,
     0x79, 0x61, 0x20, 0x77, 0x61, 0x6e, 0x74, 0x20, 0x66, 0x6f, 0x72, 0x20,
     0x6e, 0x6f, 0x74, 0x68, 0x69, 0x6e, 0x67, 0x3f]
   = [0xa2, 0xe4, 0x85, 0x86, 0x3d, 0x27, 0xf9, 0xd8, 0x64, 0xac, 0x8d, 0x80,
     0x24, 0x32, 0xa1, 0xed, 0x47, 0x7d, 0x8c, 0x4c, 0x6f, 0x34, 0x9d, 0x16,
     0xd4, 0xe7, 0xe9, 0x17, 0xc6, 0x29, 0xca, 0xd7]"
  by (subst sha256_two_blocks [where n = 28])
     (simp_all add: compress_def word_bytes_def replicate_numeral v2_inner_block1 v2_inner_block2)

lemma v2_outer_input:
  "map (\<lambda>b. b XOR opad) (TEST_K2 @ replicate (SB_SHA256_BLOCK_SIZE - length TEST_K2) 0) @
    [0xa2, 0xe4, 0x85, 0x86, 0x3d, 0x27, 0xf9, 0xd8, 0x64, 0xac, 0x8d, 0x80,
     0x24, 0x32, 0xa1, 0xed, 0x47, 0x7d, 0x8c, 0x4c, 0x6f, 0x34, 0x9d, 0x16,
     0xd4, 0xe7, 0xe9, 0x17, 0xc6, 0x29, 0xca, 0xd7] =
    [0x16, 0x39, 0x3a, 0x39, 0x5c, 0x5c, 0x5c, 0x5c, 0x5c, 0x5c, 0x5c, 0x5c,
     0x5c, 0x5c, 0x5c, 0x5c, 0x5c, 0x5c, 0x5c, 0x5c, 0x5c, 0x5c, 0x5c, 0x5c,
     0x5c, 0x5c, 0x5c, 0x5c, 0x5c, 0x5c, 0x5c, 0x5c, 0x5c, 0x5c, 0x5c, 0x5c,
     0x5c, 0x5c, 0x5c, 0x5c, 0x5c, 0x5c, 0x5c, 0x5c, 0x5c, 0x5c, 0x5c, 0x5c,
     0x5c, 0x5c, 0x5c, 0x5c, 0x5c, 0x5c, 0x5c, 0x5c, 0x5c, 0x5c, 0x5c, 0x5c,
     0x5c, 0x5c, 0x5c, 0x5c, 0xa2, 0xe4, 0x85, 0x86, 0x3d, 0x27, 0xf9, 0xd8,
     0x64, 0xac, 0x8d, 0x80, 0x24, 0x32, 0xa1, 0xed, 0x47, 0x7d, 0x8c, 0x4c,
     0x6f, 0x34, 0x9d, 0x16, 0xd4, 0xe7, 0xe9, 0x17, 0xc6, 0x29, 0xca, 0xd7]"
  by (simp add: TEST_K2_def opad_def replicate_numeral)

lemma v2_outer_digest:
  "sha256
    [0x16, 0x39, 0x3a, 0x39, 0x5c, 0x5c, 0x5c, 0x5c, 0x5c, 0x5c, 0x5c, 0x5c,
     0x5c, 0x5c, 0x5c, 0x5c, 0x5c, 0x5c, 0x5c, 0x5c, 0x5c, 0x5c, 0x5c, 0x5c,
     0x5c, 0x5c, 0x5c, 0x5c, 0x5c, 0x5c, 0x5c, 0x5c, 0x5c, 0x5c, 0x5c, 0x5c,
     0x5c, 0x5c, 0x5c, 0x5c, 0x5c, 0x5c, 0x5c, 0x5c, 0x5c, 0x5c, 0x5c, 0x5c,
     0x5c, 0x5c, 0x5c, 0x5c, 0x5c, 0x5c, 0x5c, 0x5c, 0x5c, 0x5c, 0x5c, 0x5c,
     0x5c, 0x5c, 0x5c, 0x5c, 0xa2, 0xe4, 0x85, 0x86, 0x3d, 0x27, 0xf9, 0xd8,
     0x64, 0xac, 0x8d, 0x80, 0x24, 0x32, 0xa1, 0xed, 0x47, 0x7d, 0x8c, 0x4c,
     0x6f, 0x34, 0x9d, 0x16, 0xd4, 0xe7, 0xe9, 0x17, 0xc6, 0x29, 0xca, 0xd7]
   = TEST_H2"
  unfolding TEST_H2_def
  by (subst sha256_two_blocks [where n = 32])
     (simp_all add: compress_def word_bytes_def replicate_numeral v2_outer_block1 v2_outer_block2)

lemma v2_mac:
  "sha256 (map (\<lambda>b. b XOR opad) (TEST_K2 @ replicate (SB_SHA256_BLOCK_SIZE - length TEST_K2) 0) @
           sha256 (map (\<lambda>b. b XOR ipad) (TEST_K2 @ replicate (SB_SHA256_BLOCK_SIZE - length TEST_K2) 0) @ TEST_M2))
   = TEST_H2"
  by (simp only: v2_inner_input v2_inner_digest v2_outer_input v2_outer_digest)

text \<open>
  C2: with the SHA-256 engine, the one-shot function returns in the output buffer the MAC
  \<open>b0344c61\<dots>2e32cff7\<close> for the key of 20 bytes 0x0b and the message "Hi There", and the
  MAC \<open>5bdcc146\<dots>64ec3843\<close> for the key "Jefe" and the message
  "what do ya want for nothing?", whatever the object and the 32-byte output buffer held
  before.
\<close>

theorem hmac_rfc4231_vectors:
  assumes "length output = SB_SHA256_SIZE"
  shows "snd (sb_hmac_sha256 sha256_engine hmac TEST_K1 TEST_M1 output) = TEST_H1
         \<and> snd (sb_hmac_sha256 sha256_engine hmac TEST_K2 TEST_M2 output) = TEST_H2"
proof -
  have l1: "length TEST_K1 \<le> SB_SHA256_BLOCK_SIZE"
    by (simp add: TEST_K1_def)
  have l2: "length TEST_K2 \<le> SB_SHA256_BLOCK_SIZE"
    by (simp add: TEST_K2_def)
  note closed = hmac_short_key [OF sha256_engine_digest_size sha256_engine_chunk_independent _ assms]
  have "snd (sb_hmac_sha256 sha256_engine hmac TEST_K1 TEST_M1 output) = TEST_H1"
    by (simp only: closed [OF l1] sha256_engine_hash v1_mac)
  moreover have "snd (sb_hmac_sha256 sha256_engine hmac TEST_K2 TEST_M2 output) = TEST_H2"
    by (simp only: closed [OF l2] sha256_engine_hash v2_mac)
  ultimately show ?thesis
    by (simp only: simp_thms)
qed

theorem hmac_rfc4231_vectors_witness:
  "length (replicate SB_SHA256_SIZE (0 :: sb_byte_t)) = SB_SHA256_SIZE
   \<and> snd (sb_hmac_sha256 sha256_engine \<lparr>sha = Sha_zeroed, key = replicate SB_SHA256_BLOCK_SIZE 0\<rparr>
            TEST_K1 TEST_M1 (replicate SB_SHA256_SIZE 0)) = TEST_H1
   \<and> snd (sb_hmac_sha256 sha256_engine \<lparr>sha = Sha_zeroed, key = replicate SB_SHA256_BLOCK_SIZE 0\<rparr>
            TEST_K2 TEST_M2 (replicate SB_SHA256_SIZE 0)) = TEST_H2"
  using hmac_rfc4231_vectors [of "replicate SB_SHA256_SIZE 0"
      "\<lparr>sha = Sha_zeroed, key = replicate SB_SHA256_BLOCK_SIZE 0\<rparr>"]
  by simp

end
